theory Spec2Isabelle
  imports Complex_Main
begin

section \<open>The shop schema of \<^verbatim>\<open>shop/models.py\<close>\<close>

text \<open>
  The source is a Django model module: every class declares the columns, the relations and
  the constraints of one table, and \<^verbatim>\<open>ProductQuerySet\<close> adds four query helpers.
  Each model class becomes a record of its columns, the abstract bases
  \<^verbatim>\<open>TimeStampedModel\<close> and \<^verbatim>\<open>TrackedModel\<close> become parent records, a table is
  a list of (primary key, row) pairs and a foreign key holds the primary key it refers to.
  A \<^verbatim>\<open>DecimalField\<close> with two decimal places holds a whole number of hundredths, one
  with three a whole number of thousandths; a \<^verbatim>\<open>DateTimeField\<close> holds a point in time
  as a natural number; integer fields hold Python integers.
\<close>

subsection \<open>Rows\<close>

record time_stamped =
  created_at :: nat
  updated_at :: nat

record tracked = time_stamped +
  created_by :: "nat option"
  is_active :: bool

record category = tracked +
  cat_name :: string
  cat_description :: string
  main_supplier :: "nat option"

record supplier = tracked +
  company_name :: string
  contact_name :: string
  sup_phone :: string
  sup_email :: string
  address :: string

record product = tracked +
  prod_name :: string
  prod_description :: string
  price :: int
  prod_category :: nat
  stock_quantity :: int

record product_detail = time_stamped +
  det_product :: nat
  weight_kg :: "int option"
  dimensions :: string
  manufacturer :: string
  warranty_months :: "int option"

record product_supplier = time_stamped +
  ps_product :: nat
  ps_supplier :: nat
  purchase_price :: int
  delivery_days :: int

record tag = time_stamped +
  tg_name :: string
  tg_description :: string

record product_tag =
  pt_product :: nat
  pt_tag :: nat

record customer = tracked +
  first_name :: string
  last_name :: string
  cust_email :: string
  cust_phone :: string
  registration_date :: nat

record shop_order = tracked +
  ord_customer :: nat
  order_date :: nat
  total_amount :: int
  status :: string

record order_item = time_stamped +
  oi_order :: nat
  oi_product :: nat
  quantity :: int
  unit_price :: int

record review = time_stamped +
  rev_product :: nat
  rev_customer :: nat
  rating :: int
  rev_comment :: string

text \<open>
  The database: one table per concrete model, and the primary keys of Django's
  \<^verbatim>\<open>User\<close> table, which \<^verbatim>\<open>created_by\<close> refers to (the other columns of
  \<^verbatim>\<open>User\<close> belong to Django, not to this module).
\<close>

record db =
  users :: "nat list"
  categories :: "(nat \<times> category) list"
  suppliers :: "(nat \<times> supplier) list"
  products :: "(nat \<times> product) list"
  product_details :: "(nat \<times> product_detail) list"
  product_suppliers :: "(nat \<times> product_supplier) list"
  tags :: "(nat \<times> tag) list"
  product_tags :: "(nat \<times> product_tag) list"
  customers :: "(nat \<times> customer) list"
  orders :: "(nat \<times> shop_order) list"
  order_items :: "(nat \<times> order_item) list"
  reviews :: "(nat \<times> review) list"

datatype error =
    FieldError string
  | ValidationError "string list"
  | IntegrityError string
  | ProtectedError string

subsection \<open>Names a lookup can resolve\<close>

datatype model =
    User | Category | Supplier | Product | ProductDetail | ProductSupplier
  | Tag | ProductTag | Customer | Order | OrderItem | Review

text \<open>
  The non-relational columns of each model, under the names the classes give them
  (\<^verbatim>\<open>id\<close> is the automatic primary key; the two timestamps come from
  \<^verbatim>\<open>TimeStampedModel\<close>, \<^verbatim>\<open>is_active\<close> from \<^verbatim>\<open>TrackedModel\<close>).
\<close>

fun local_fields :: "model \<Rightarrow> string list" where
  "local_fields User = [''id'']"
| "local_fields Category =
     [''id'', ''created_at'', ''updated_at'', ''is_active'', ''name'', ''description'']"
| "local_fields Supplier =
     [''id'', ''created_at'', ''updated_at'', ''is_active'', ''company_name'',
      ''contact_name'', ''phone'', ''email'', ''address'']"
| "local_fields Product =
     [''id'', ''created_at'', ''updated_at'', ''is_active'', ''name'', ''description'',
      ''price'', ''stock_quantity'']"
| "local_fields ProductDetail =
     [''id'', ''created_at'', ''updated_at'', ''weight_kg'', ''dimensions'',
      ''manufacturer'', ''warranty_months'']"
| "local_fields ProductSupplier =
     [''id'', ''created_at'', ''updated_at'', ''purchase_price'', ''delivery_days'']"
| "local_fields Tag = [''id'', ''created_at'', ''updated_at'', ''name'', ''description'']"
| "local_fields ProductTag = [''id'']"
| "local_fields Customer =
     [''id'', ''created_at'', ''updated_at'', ''is_active'', ''first_name'', ''last_name'',
      ''email'', ''phone'', ''registration_date'']"
| "local_fields Order =
     [''id'', ''created_at'', ''updated_at'', ''is_active'', ''order_date'',
      ''total_amount'', ''status'']"
| "local_fields OrderItem =
     [''id'', ''created_at'', ''updated_at'', ''quantity'', ''unit_price'']"
| "local_fields Review = [''id'', ''created_at'', ''updated_at'', ''rating'', ''comment'']"

text \<open>
  The relations of each model with the model they lead to: a forward relation under the
  name of its field, a reverse relation under the \<^verbatim>\<open>related_name\<close> its field
  declares (\<^verbatim>\<open>created_%(class)s\<close> expands to the lower-cased class name).
\<close>

fun relations :: "model \<Rightarrow> (string \<times> model) list" where
  "relations User =
     [(''created_category'', Category), (''created_supplier'', Supplier),
      (''created_product'', Product), (''created_customer'', Customer),
      (''created_order'', Order)]"
| "relations Category =
     [(''created_by'', User), (''main_supplier'', Supplier), (''products'', Product)]"
| "relations Supplier =
     [(''created_by'', User), (''main_categories'', Category), (''products'', Product),
      (''product_suppliers'', ProductSupplier)]"
| "relations Product =
     [(''created_by'', User), (''category'', Category), (''suppliers'', Supplier),
      (''details'', ProductDetail), (''product_suppliers'', ProductSupplier),
      (''product_tags'', ProductTag), (''order_items'', OrderItem), (''reviews'', Review)]"
| "relations ProductDetail = [(''product'', Product)]"
| "relations ProductSupplier = [(''product'', Product), (''supplier'', Supplier)]"
| "relations Tag = [(''product_tags'', ProductTag)]"
| "relations ProductTag = [(''product'', Product), (''tag'', Tag)]"
| "relations Customer = [(''created_by'', User), (''orders'', Order), (''reviews'', Review)]"
| "relations Order = [(''created_by'', User), (''customer'', Customer), (''items'', OrderItem)]"
| "relations OrderItem = [(''order'', Order), (''product'', Product)]"
| "relations Review = [(''product'', Product), (''customer'', Customer)]"

text \<open>
  The foreign keys each model declares. A foreign key is also found under the name of its
  column, the field name followed by \<^verbatim>\<open>_id\<close>, and the primary key under
  \<^verbatim>\<open>pk\<close>.
\<close>

fun foreign_keys :: "model \<Rightarrow> string list" where
  "foreign_keys User = []"
| "foreign_keys Category = [''created_by'', ''main_supplier'']"
| "foreign_keys Supplier = [''created_by'']"
| "foreign_keys Product = [''created_by'', ''category'']"
| "foreign_keys ProductDetail = [''product'']"
| "foreign_keys ProductSupplier = [''product'', ''supplier'']"
| "foreign_keys Tag = []"
| "foreign_keys ProductTag = [''product'', ''tag'']"
| "foreign_keys Customer = [''created_by'']"
| "foreign_keys Order = [''created_by'', ''customer'']"
| "foreign_keys OrderItem = [''order'', ''product'']"
| "foreign_keys Review = [''product'', ''customer'']"

definition field_name :: "model \<Rightarrow> string \<Rightarrow> string" where
  "field_name m n =
     (if n = ''pk'' then ''id''
      else case find (\<lambda>f. f @ ''_id'' = n) (foreign_keys m) of Some f \<Rightarrow> f | None \<Rightarrow> n)"

text \<open>
  Resolving the field path of a lookup such as \<^verbatim>\<open>reviews__rating\<close>, split at the double
  underscores: every name but the last must be a relation of the model reached so far, the
  last a relation or a column. A name that is
  neither raises \<^verbatim>\<open>FieldError\<close>, as soon as the query is built. The result is the
  list of relations walked, each with the model it starts from, the model reached and the
  column named last, if any.
\<close>

fun names_to_path ::
  "model \<Rightarrow> string list \<Rightarrow> error + ((model \<times> string) list \<times> model \<times> string option)" where
  "names_to_path m [] = Inr ([], m, None)"
| "names_to_path m (n # ns) =
     (let name = field_name m n in
      case map_of (relations m) name of
        Some m' \<Rightarrow>
          (case names_to_path m' ns of
             Inl e \<Rightarrow> Inl e
           | Inr (path, final, col) \<Rightarrow> Inr ((m, name) # path, final, col))
      | None \<Rightarrow>
          if name \<in> set (local_fields m) then
            (case ns of [] \<Rightarrow> Inr ([], m, Some name) | n' # _ \<Rightarrow> Inl (FieldError n'))
          else Inl (FieldError n))"

subsection \<open>Values, joins and lookups\<close>

datatype val = VNull | VBool bool | VInt int | VDec rat | VText string | VTime nat

definition opt_val :: "('a \<Rightarrow> val) \<Rightarrow> 'a option \<Rightarrow> val" where
  "opt_val f x = (case x of None \<Rightarrow> VNull | Some v \<Rightarrow> f v)"

definition hundredths :: "int \<Rightarrow> val" where
  "hundredths n = VDec (of_int n / 100)"

definition thousandths :: "int \<Rightarrow> val" where
  "thousandths n = VDec (of_int n / 1000)"

definition stamps :: "'a time_stamped_scheme \<Rightarrow> (string \<times> val) list" where
  "stamps r = [(''created_at'', VTime (created_at r)), (''updated_at'', VTime (updated_at r))]"

definition tracking :: "'a tracked_scheme \<Rightarrow> (string \<times> val) list" where
  "tracking r = stamps r @ [(''is_active'', VBool (is_active r))]"

definition row_of :: "(nat \<times> 'a) list \<Rightarrow> nat \<Rightarrow> ('a \<Rightarrow> (string \<times> val) list) \<Rightarrow> (string \<times> val) list" where
  "row_of table i f = (case map_of table i of None \<Rightarrow> [] | Some r \<Rightarrow> (''id'', VInt (int i)) # f r)"

text \<open>The columns of the row with primary key \<open>i\<close>, by name.\<close>

fun column_values :: "db \<Rightarrow> model \<Rightarrow> nat \<Rightarrow> (string \<times> val) list" where
  "column_values d User i = (if i \<in> set (users d) then [(''id'', VInt (int i))] else [])"
| "column_values d Category i = row_of (categories d) i (\<lambda>r. tracking r @
     [(''name'', VText (cat_name r)), (''description'', VText (cat_description r))])"
| "column_values d Supplier i = row_of (suppliers d) i (\<lambda>r. tracking r @
     [(''company_name'', VText (company_name r)), (''contact_name'', VText (contact_name r)),
      (''phone'', VText (sup_phone r)), (''email'', VText (sup_email r)),
      (''address'', VText (address r))])"
| "column_values d Product i = row_of (products d) i (\<lambda>r. tracking r @
     [(''name'', VText (prod_name r)), (''description'', VText (prod_description r)),
      (''price'', hundredths (price r)), (''stock_quantity'', VInt (stock_quantity r))])"
| "column_values d ProductDetail i = row_of (product_details d) i (\<lambda>r. stamps r @
     [(''weight_kg'', opt_val thousandths (weight_kg r)), (''dimensions'', VText (dimensions r)),
      (''manufacturer'', VText (manufacturer r)),
      (''warranty_months'', opt_val VInt (warranty_months r))])"
| "column_values d ProductSupplier i = row_of (product_suppliers d) i (\<lambda>r. stamps r @
     [(''purchase_price'', hundredths (purchase_price r)),
      (''delivery_days'', VInt (delivery_days r))])"
| "column_values d Tag i = row_of (tags d) i (\<lambda>r. stamps r @
     [(''name'', VText (tg_name r)), (''description'', VText (tg_description r))])"
| "column_values d ProductTag i = row_of (product_tags d) i (\<lambda>r. [])"
| "column_values d Customer i = row_of (customers d) i (\<lambda>r. tracking r @
     [(''first_name'', VText (first_name r)), (''last_name'', VText (last_name r)),
      (''email'', VText (cust_email r)), (''phone'', VText (cust_phone r)),
      (''registration_date'', VTime (registration_date r))])"
| "column_values d Order i = row_of (orders d) i (\<lambda>r. tracking r @
     [(''order_date'', VTime (order_date r)), (''total_amount'', hundredths (total_amount r)),
      (''status'', VText (status r))])"
| "column_values d OrderItem i = row_of (order_items d) i (\<lambda>r. stamps r @
     [(''quantity'', VInt (quantity r)), (''unit_price'', hundredths (unit_price r))])"
| "column_values d Review i = row_of (reviews d) i (\<lambda>r. stamps r @
     [(''rating'', VInt (rating r)), (''comment'', VText (rev_comment r))])"

text \<open>
  Joins. A forward relation leads from a row to the row its foreign key names, a reverse
  relation to the rows whose foreign key names it, the many-to-many relation
  \<^verbatim>\<open>suppliers\<close> through the rows of \<^verbatim>\<open>ProductSupplier\<close>.
\<close>

definition forward :: "(nat \<times> 'a) list \<Rightarrow> ('a \<Rightarrow> nat option) \<Rightarrow> nat \<Rightarrow> nat list" where
  "forward table fk i =
     (case map_of table i of None \<Rightarrow> [] | Some r \<Rightarrow> (case fk r of None \<Rightarrow> [] | Some j \<Rightarrow> [j]))"

definition reverse :: "(nat \<times> 'a) list \<Rightarrow> ('a \<Rightarrow> nat option) \<Rightarrow> nat \<Rightarrow> nat list" where
  "reverse table fk i = map fst (filter (\<lambda>(j, r). fk r = Some i) table)"

definition through ::
  "(nat \<times> 'a) list \<Rightarrow> ('a \<Rightarrow> nat) \<Rightarrow> ('a \<Rightarrow> nat) \<Rightarrow> nat \<Rightarrow> nat list" where
  "through table src dst i = map (\<lambda>(j, r). dst r) (filter (\<lambda>(j, r). src r = i) table)"

fun joins :: "db \<Rightarrow> model \<Rightarrow> (string \<times> (nat \<Rightarrow> nat list)) list" where
  "joins d User =
     [(''created_category'', reverse (categories d) created_by),
      (''created_supplier'', reverse (suppliers d) created_by),
      (''created_product'', reverse (products d) created_by),
      (''created_customer'', reverse (customers d) created_by),
      (''created_order'', reverse (orders d) created_by)]"
| "joins d Category =
     [(''created_by'', forward (categories d) created_by),
      (''main_supplier'', forward (categories d) main_supplier),
      (''products'', reverse (products d) (Some \<circ> prod_category))]"
| "joins d Supplier =
     [(''created_by'', forward (suppliers d) created_by),
      (''main_categories'', reverse (categories d) main_supplier),
      (''products'', through (product_suppliers d) ps_supplier ps_product),
      (''product_suppliers'', reverse (product_suppliers d) (Some \<circ> ps_supplier))]"
| "joins d Product =
     [(''created_by'', forward (products d) created_by),
      (''category'', forward (products d) (Some \<circ> prod_category)),
      (''suppliers'', through (product_suppliers d) ps_product ps_supplier),
      (''details'', reverse (product_details d) (Some \<circ> det_product)),
      (''product_suppliers'', reverse (product_suppliers d) (Some \<circ> ps_product)),
      (''product_tags'', reverse (product_tags d) (Some \<circ> pt_product)),
      (''order_items'', reverse (order_items d) (Some \<circ> oi_product)),
      (''reviews'', reverse (reviews d) (Some \<circ> rev_product))]"
| "joins d ProductDetail = [(''product'', forward (product_details d) (Some \<circ> det_product))]"
| "joins d ProductSupplier =
     [(''product'', forward (product_suppliers d) (Some \<circ> ps_product)),
      (''supplier'', forward (product_suppliers d) (Some \<circ> ps_supplier))]"
| "joins d Tag = [(''product_tags'', reverse (product_tags d) (Some \<circ> pt_tag))]"
| "joins d ProductTag =
     [(''product'', forward (product_tags d) (Some \<circ> pt_product)),
      (''tag'', forward (product_tags d) (Some \<circ> pt_tag))]"
| "joins d Customer =
     [(''created_by'', forward (customers d) created_by),
      (''orders'', reverse (orders d) (Some \<circ> ord_customer)),
      (''reviews'', reverse (reviews d) (Some \<circ> rev_customer))]"
| "joins d Order =
     [(''created_by'', forward (orders d) created_by),
      (''customer'', forward (orders d) (Some \<circ> ord_customer)),
      (''items'', reverse (order_items d) (Some \<circ> oi_order))]"
| "joins d OrderItem =
     [(''order'', forward (order_items d) (Some \<circ> oi_order)),
      (''product'', forward (order_items d) (Some \<circ> oi_product))]"
| "joins d Review =
     [(''product'', forward (reviews d) (Some \<circ> rev_product)),
      (''customer'', forward (reviews d) (Some \<circ> rev_customer))]"

definition follow :: "db \<Rightarrow> model \<Rightarrow> string \<Rightarrow> nat \<Rightarrow> nat list" where
  "follow d m name i = (case map_of (joins d m) name of None \<Rightarrow> [] | Some f \<Rightarrow> f i)"

text \<open>The primary keys of the rows joined to row \<open>i\<close> along a path of relations.\<close>

fun walk :: "db \<Rightarrow> (model \<times> string) list \<Rightarrow> nat \<Rightarrow> nat list" where
  "walk d [] i = [i]"
| "walk d ((m, name) # path) i = concat (map (walk d path) (follow d m name i))"

text \<open>
  The values a resolved lookup reads for row \<open>i\<close>, one for each joined row: the named
  column, or the primary key of the joined row when the lookup ends on a relation. A row
  with nothing joined has no value (the NULL row of the outer join, which no comparison
  matches and every aggregate skips).
\<close>

definition lookup_values ::
  "db \<Rightarrow> (model \<times> string) list \<times> model \<times> string option \<Rightarrow> nat \<Rightarrow> val list" where
  "lookup_values d res i =
     (case res of (path, final, col) \<Rightarrow>
        (case col of
           None \<Rightarrow> map (\<lambda>j. VInt (int j)) (walk d path i)
         | Some c \<Rightarrow>
             filter (\<lambda>v. v \<noteq> VNull)
               (concat (map (\<lambda>j. (case map_of (column_values d final j) c of
                                      None \<Rightarrow> [] | Some v \<Rightarrow> [v]))
                            (walk d path i)))))"

datatype lookup = Exact | Gt | Gte | Lt | Lte

fun number :: "val \<Rightarrow> rat option" where
  "number (VInt n) = Some (of_int n)"
| "number (VDec q) = Some q"
| "number (VTime t) = Some (of_nat t)"
| "number _ = None"

text \<open>
  A comparison of a column value \<open>v\<close> with the value \<open>w\<close> the caller gave. NULL matches
  nothing; numbers compare by value, whatever their column type.
\<close>

definition compare :: "lookup \<Rightarrow> val \<Rightarrow> val \<Rightarrow> bool" where
  "compare l v w =
     (case (number v, number w) of
        (Some a, Some b) \<Rightarrow>
          (case l of Exact \<Rightarrow> a = b | Gt \<Rightarrow> a > b | Gte \<Rightarrow> a \<ge> b | Lt \<Rightarrow> a < b | Lte \<Rightarrow> a \<le> b)
      | _ \<Rightarrow> l = Exact \<and> v = w \<and> v \<noteq> VNull)"

subsection \<open>Query sets\<close>

text \<open>
  A query set over \<^verbatim>\<open>Product\<close> is the list of the primary keys of the rows it
  denotes, read in the database it is evaluated in; \<^verbatim>\<open>Product.objects\<close> denotes the
  whole table. (The order \<^verbatim>\<open>Meta.ordering\<close> gives the rows when they are fetched is
  left out: the helpers select and annotate rows, they do not order them.)
\<close>

type_synonym product_query_set = "nat list"

definition objects :: "db \<Rightarrow> product_query_set" where
  "objects d = map fst (products d)"

definition get_product :: "db \<Rightarrow> nat \<Rightarrow> product option" where
  "get_product d i = map_of (products d) i"

text \<open>
  One condition of \<^verbatim>\<open>filter(path__lookup=value)\<close>: the path is resolved when the filter
  is built, and a row is kept once for every joined row whose value matches.
\<close>

definition filter_one ::
  "db \<Rightarrow> string list \<Rightarrow> lookup \<Rightarrow> val \<Rightarrow> product_query_set \<Rightarrow> error + product_query_set" where
  "filter_one d names l w qs =
     (case names_to_path Product names of
        Inl e \<Rightarrow> Inl e
      | Inr res \<Rightarrow>
          Inr (concat (map (\<lambda>i.
                 replicate (length (filter (\<lambda>v. compare l v w) (lookup_values d res i))) i)
               qs)))"

text \<open>
  \<^verbatim>\<open>filter(**kwargs)\<close> with several conditions, all on columns of \<^verbatim>\<open>Product\<close>
  itself in this module: the conditions are applied in turn.
\<close>

fun filter_all ::
  "db \<Rightarrow> (string list \<times> lookup \<times> val) list \<Rightarrow> product_query_set \<Rightarrow> error + product_query_set" where
  "filter_all d [] qs = Inr qs"
| "filter_all d ((names, l, w) # conds) qs =
     (case filter_one d names l w qs of Inl e \<Rightarrow> Inl e | Inr qs' \<Rightarrow> filter_all d conds qs')"

subsection \<open>\<^verbatim>\<open>ProductQuerySet\<close>\<close>

text \<open>\<^verbatim>\<open>self.filter(stock_quantity__gt=0, is_active=True)\<close>\<close>

definition available :: "db \<Rightarrow> product_query_set \<Rightarrow> error + product_query_set" where
  "available d self =
     filter_all d [([''stock_quantity''], Gt, VInt 0), ([''is_active''], Exact, VBool True)] self"


text \<open>\<^verbatim>\<open>self.filter(tags__name=tag_name)\<close>\<close>

definition by_tag :: "db \<Rightarrow> string \<Rightarrow> product_query_set \<Rightarrow> error + product_query_set" where
  "by_tag d tag_name self = filter_all d [([''tags'', ''name''], Exact, VText tag_name)] self"

text \<open>
  \<^verbatim>\<open>self.annotate(review_count=Count("reviews", distinct=True), avg_rating=Avg("reviews__rating"))\<close>.
  The rows are grouped by product, and both aggregates read the one join to the reviews:
  \<^verbatim>\<open>Count\<close> counts the different keys joined, \<^verbatim>\<open>Avg\<close> is the mean of the numbers
  joined and NULL when there are none.
\<close>

record rated_product =
  pk :: nat
  review_count :: nat
  avg_rating :: "rat option"

definition Count_distinct :: "val list \<Rightarrow> nat" where
  "Count_distinct vs = length (remdups vs)"

definition Avg :: "val list \<Rightarrow> rat option" where
  "Avg vs =
     (let ns = concat (map (\<lambda>v. case number v of None \<Rightarrow> [] | Some q \<Rightarrow> [q]) vs)
      in if ns = [] then None else Some (sum_list ns / of_nat (length ns)))"

definition with_rating :: "db \<Rightarrow> product_query_set \<Rightarrow> error + rated_product list" where
  "with_rating d self =
     (case names_to_path Product [''reviews''] of
        Inl e \<Rightarrow> Inl e
      | Inr counted \<Rightarrow>
          (case names_to_path Product [''reviews'', ''rating''] of
             Inl e \<Rightarrow> Inl e
           | Inr averaged \<Rightarrow>
               Inr (map (\<lambda>i. \<lparr>pk = i,
                                review_count = Count_distinct (lookup_values d counted i),
                                avg_rating = Avg (lookup_values d averaged i)\<rparr>)
                        (remdups self))))"

subsection \<open>Validation\<close>

text \<open>
  The validators of \<^verbatim>\<open>django.core.validators\<close> the fields name. A limit on a decimal
  field is given in the unit of the field.
\<close>

datatype validator = MinValueValidator int | MaxValueValidator int

fun passes :: "validator \<Rightarrow> int \<Rightarrow> bool" where
  "passes (MinValueValidator limit) x = (\<not> x < limit)"
| "passes (MaxValueValidator limit) x = (\<not> x > limit)"

definition rating_validators :: "validator list" where
  "rating_validators = [MinValueValidator 1, MaxValueValidator 5]"

definition quantity_validators :: "validator list" where
  "quantity_validators = [MinValueValidator 1]"

definition unit_price_validators :: "validator list" where
  "unit_price_validators = [MinValueValidator 0]"

definition total_amount_validators :: "validator list" where
  "total_amount_validators = [MinValueValidator 0]"

text \<open>
  What the field types check by themselves when a model is validated: a
  \<^verbatim>\<open>PositiveIntegerField\<close> is not negative, a \<^verbatim>\<open>DecimalField\<close> with
  \<^verbatim>\<open>max_digits=10, decimal_places=2\<close> has at most ten digits, a foreign key names an
  existing row, a \<^verbatim>\<open>CharField\<close> is not blank, not longer than its
  \<^verbatim>\<open>max_length\<close> and among its \<^verbatim>\<open>choices\<close> when it has some.
\<close>

definition positive_integer :: "int \<Rightarrow> bool" where
  "positive_integer x = (0 \<le> x)"

definition ten_digits :: "int \<Rightarrow> bool" where
  "ten_digits x = (\<bar>x\<bar> < 10 ^ 10)"

definition exists_in :: "(nat \<times> 'a) list \<Rightarrow> nat \<Rightarrow> bool" where
  "exists_in table i = (i \<in> set (map fst table))"

definition creator_ok :: "db \<Rightarrow> nat option \<Rightarrow> bool" where
  "creator_ok d u = (case u of None \<Rightarrow> True | Some i \<Rightarrow> i \<in> set (users d))"

text \<open>\<^verbatim>\<open>class Status(models.TextChoices)\<close>: four members, each a value and a label.\<close>

datatype Status = PENDING | COMPLETED | SHIPPED | CANCELLED

fun Status_value :: "Status \<Rightarrow> string" where
  "Status_value PENDING = ''pending''"
| "Status_value COMPLETED = ''completed''"
| "Status_value SHIPPED = ''shipped''"
| "Status_value CANCELLED = ''cancelled''"

fun Status_label :: "Status \<Rightarrow> string" where
  "Status_label PENDING = ''pending''"
| "Status_label COMPLETED = ''completed''"
| "Status_label SHIPPED = ''shipped''"
| "Status_label CANCELLED = ''cancelled''"

definition Status_choices :: "(string \<times> string) list" where
  "Status_choices = map (\<lambda>s. (Status_value s, Status_label s)) [PENDING, COMPLETED, SHIPPED, CANCELLED]"

text \<open>
  \<^verbatim>\<open>full_clean()\<close> collects the fields that fail and raises one
  \<^verbatim>\<open>ValidationError\<close> naming them, in the order of the fields; a unique constraint
  is checked only when none of its fields has failed, and is reported under
  \<^verbatim>\<open>__all__\<close>. Here \<open>failed\<close> lists the names whose check is false.
\<close>

definition failed :: "(string \<times> bool) list \<Rightarrow> string list" where
  "failed checks = map fst (filter (\<lambda>(name, ok). \<not> ok) checks)"

definition raise_if :: "string list \<Rightarrow> error + unit" where
  "raise_if names = (if names = [] then Inr () else Inl (ValidationError names))"

definition full_clean_review :: "db \<Rightarrow> review \<Rightarrow> error + unit" where
  "full_clean_review d r =
     raise_if (failed
       [(''product'', exists_in (products d) (rev_product r)),
        (''customer'', exists_in (customers d) (rev_customer r)),
        (''rating'', list_all (\<lambda>v. passes v (rating r)) rating_validators)])"

definition full_clean_order_item :: "db \<Rightarrow> order_item \<Rightarrow> error + unit" where
  "full_clean_order_item d oi =
     (let fields = failed
        [(''order'', exists_in (orders d) (oi_order oi)),
         (''product'', exists_in (products d) (oi_product oi)),
         (''quantity'', positive_integer (quantity oi) \<and>
                        list_all (\<lambda>v. passes v (quantity oi)) quantity_validators),
         (''unit_price'', ten_digits (unit_price oi) \<and>
                          list_all (\<lambda>v. passes v (unit_price oi)) unit_price_validators)]
      in raise_if (fields @ failed
        [(''__all__'',
            (if ''order'' \<in> set fields \<or> ''product'' \<in> set fields then True
             else \<not> list_ex (\<lambda>(j, x). oi_order x = oi_order oi \<and> oi_product x = oi_product oi)
                        (order_items d)))]))"

definition full_clean_order :: "db \<Rightarrow> shop_order \<Rightarrow> error + unit" where
  "full_clean_order d ord =
     raise_if (failed
       [(''created_by'', creator_ok d (created_by ord)),
        (''customer'', exists_in (customers d) (ord_customer ord)),
        (''total_amount'', ten_digits (total_amount ord) \<and>
                           list_all (\<lambda>v. passes v (total_amount ord)) total_amount_validators),
        (''status'', status ord \<noteq> [] \<and> length (status ord) \<le> 20 \<and>
                     status ord \<in> set (map fst Status_choices))])"

text \<open>
  Building an \<^verbatim>\<open>Order\<close>: the caller gives the customer and the total, and may give
  the other fields; a field left out takes the default its declaration names
  (\<^verbatim>\<open>default=True\<close>, \<^verbatim>\<open>default=timezone.now\<close>, \<^verbatim>\<open>default=Status.PENDING\<close>,
  no creator). The timestamps are set when the row is saved.
\<close>

record order_kwargs =
  kw_created_by :: "nat option"
  kw_is_active :: "bool option"
  kw_customer :: nat
  kw_order_date :: "nat option"
  kw_total_amount :: int
  kw_status :: "string option"

definition new_order :: "nat \<Rightarrow> order_kwargs \<Rightarrow> shop_order" where
  "new_order now kw =
     \<lparr>created_at = now, updated_at = now,
      created_by = kw_created_by kw,
      is_active = (case kw_is_active kw of None \<Rightarrow> True | Some b \<Rightarrow> b),
      ord_customer = kw_customer kw,
      order_date = (case kw_order_date kw of None \<Rightarrow> now | Some t \<Rightarrow> t),
      total_amount = kw_total_amount kw,
      status = (case kw_status kw of None \<Rightarrow> Status_value PENDING | Some s \<Rightarrow> s)\<rparr>"

subsection \<open>The storage layer\<close>

text \<open>
  \<^verbatim>\<open>save()\<close> of a new instance (and \<^verbatim>\<open>objects.create()\<close>, which calls it)
  inserts a row and runs no validator: Django runs validators in \<^verbatim>\<open>full_clean()\<close>
  only, which a caller or a form has to call before saving. The table itself
  holds what the declarations put into the schema: the check of a
  \<^verbatim>\<open>PositiveIntegerField\<close> column (not negative), the \<^verbatim>\<open>UniqueConstraint\<close>s of
  \<^verbatim>\<open>Meta\<close> and the foreign keys. A violation raises \<^verbatim>\<open>IntegrityError\<close>, here
  with the name of the constraint or of the column, and nothing is written. The new row gets
  the next primary key and the current time as its timestamps. (The width of a column, that
  is \<^verbatim>\<open>max_length\<close>, \<^verbatim>\<open>max_digits\<close> and the range of an integer column, is
  enforced by some database backends and ignored by others; it is left out of the model, and
  the properties below that say a row is stored are stated for values that fit.)
\<close>

definition next_pk :: "(nat \<times> 'a) list \<Rightarrow> nat" where
  "next_pk table = Suc (fold max (map fst table) 0)"

definition stamp :: "nat \<Rightarrow> 'a time_stamped_scheme \<Rightarrow> 'a time_stamped_scheme" where
  "stamp now r = r\<lparr>created_at := now, updated_at := now\<rparr>"

definition insert_row :: "(nat \<times> 'a) list \<Rightarrow> 'a \<Rightarrow> (nat \<times> 'a) list" where
  "insert_row table r = table @ [(next_pk table, r)]"

definition save_product :: "db \<Rightarrow> nat \<Rightarrow> product \<Rightarrow> error + db" where
  "save_product d now p =
     (if \<not> positive_integer (stock_quantity p) then Inl (IntegrityError ''stock_quantity'')
      else if list_ex (\<lambda>(j, x). prod_name x = prod_name p \<and> prod_category x = prod_category p)
                (products d)
      then Inl (IntegrityError ''uniq_product_in_category'')
      else if \<not> creator_ok d (created_by p) then Inl (IntegrityError ''created_by_id'')
      else if \<not> exists_in (categories d) (prod_category p) then Inl (IntegrityError ''category_id'')
      else Inr (d\<lparr>products := insert_row (products d) (stamp now p)\<rparr>))"

definition save_order :: "db \<Rightarrow> nat \<Rightarrow> shop_order \<Rightarrow> error + db" where
  "save_order d now ord =
     (if \<not> creator_ok d (created_by ord) then Inl (IntegrityError ''created_by_id'')
      else if \<not> exists_in (customers d) (ord_customer ord) then Inl (IntegrityError ''customer_id'')
      else Inr (d\<lparr>orders := insert_row (orders d) (stamp now ord)\<rparr>))"

definition save_order_item :: "db \<Rightarrow> nat \<Rightarrow> order_item \<Rightarrow> error + db" where
  "save_order_item d now oi =
     (if \<not> positive_integer (quantity oi) then Inl (IntegrityError ''quantity'')
      else if list_ex (\<lambda>(j, x). oi_order x = oi_order oi \<and> oi_product x = oi_product oi)
                (order_items d)
      then Inl (IntegrityError ''uniq_order_product'')
      else if \<not> exists_in (orders d) (oi_order oi) then Inl (IntegrityError ''order_id'')
      else if \<not> exists_in (products d) (oi_product oi) then Inl (IntegrityError ''product_id'')
      else Inr (d\<lparr>order_items := insert_row (order_items d) (stamp now oi)\<rparr>))"

definition save_review :: "db \<Rightarrow> nat \<Rightarrow> review \<Rightarrow> error + db" where
  "save_review d now r =
     (if \<not> exists_in (products d) (rev_product r) then Inl (IntegrityError ''product_id'')
      else if \<not> exists_in (customers d) (rev_customer r) then Inl (IntegrityError ''customer_id'')
      else Inr (d\<lparr>reviews := insert_row (reviews d) (stamp now r)\<rparr>))"

text \<open>The database after an operation: the new one, or the old one when it failed.\<close>

definition state_after :: "db \<Rightarrow> error + db \<Rightarrow> db" where
  "state_after d res = (case res of Inl e \<Rightarrow> d | Inr d' \<Rightarrow> d')"

text \<open>
  Deleting a product. Django collects the rows that refer to it before it deletes
  anything, each relation with the \<^verbatim>\<open>on_delete\<close> it declares:
  \<^verbatim>\<open>OrderItem.product\<close> is \<^verbatim>\<open>PROTECT\<close>, so a referring order item raises
  \<^verbatim>\<open>ProtectedError\<close>; \<^verbatim>\<open>ProductDetail.product\<close>,
  \<^verbatim>\<open>ProductSupplier.product\<close>, \<^verbatim>\<open>ProductTag.product\<close> and
  \<^verbatim>\<open>Review.product\<close> are \<^verbatim>\<open>CASCADE\<close>, so their rows go with the product
  (nothing refers to those four tables in turn).
\<close>

definition without :: "('a \<Rightarrow> nat) \<Rightarrow> nat \<Rightarrow> (nat \<times> 'a) list \<Rightarrow> (nat \<times> 'a) list" where
  "without fk i table = filter (\<lambda>(j, r). fk r \<noteq> i) table"

definition delete_product :: "db \<Rightarrow> nat \<Rightarrow> error + db" where
  "delete_product d i =
     (if list_ex (\<lambda>(j, x). oi_product x = i) (order_items d) then Inl (ProtectedError ''order_items'')
      else Inr (d\<lparr>product_details := without det_product i (product_details d),
                 product_suppliers := without ps_product i (product_suppliers d),
                 product_tags := without pt_product i (product_tags d),
                 reviews := without rev_product i (reviews d),
                 products := filter (\<lambda>(j, p). j \<noteq> i) (products d)\<rparr>))"

subsection \<open>Notions the properties are stated with\<close>

text \<open>The rows of a query set whose product satisfies \<open>P\<close>.\<close>

definition where_product :: "db \<Rightarrow> (product \<Rightarrow> bool) \<Rightarrow> nat \<Rightarrow> bool" where
  "where_product d P i = (case get_product d i of None \<Rightarrow> False | Some p \<Rightarrow> P p)"



definition mean :: "int list \<Rightarrow> rat option" where
  "mean xs = (if xs = [] then None else Some (of_int (sum_list xs) / of_nat (length xs)))"

text \<open>
  The products linked, through a row of \<^verbatim>\<open>ProductTag\<close>, with a tag of the given name:
  what \<^verbatim>\<open>by_tag\<close> is specified to select.
\<close>

definition tagged :: "db \<Rightarrow> string \<Rightarrow> nat \<Rightarrow> bool" where
  "tagged d tag_name i =
     list_ex (\<lambda>(j, l). pt_product l = i \<and>
                list_ex (\<lambda>(k, t). k = pt_tag l \<and> tg_name t = tag_name) (tags d))
             (product_tags d)"

definition by_tag_spec :: "db \<Rightarrow> string \<Rightarrow> product_query_set \<Rightarrow> error + product_query_set" where
  "by_tag_spec d tag_name self = Inr (filter (tagged d tag_name) self)"

text \<open>Some order item refers to product \<open>i\<close>.\<close>

definition referred :: "db \<Rightarrow> nat \<Rightarrow> bool" where
  "referred d i = (i \<in> set (map (\<lambda>(j, x). oi_product x) (order_items d)))"

text \<open>Two products with the same name in the same category.\<close>

definition same_place :: "product \<Rightarrow> product \<Rightarrow> bool" where
  "same_place p q = (prod_name q = prod_name p \<and> prod_category q = prod_category p)"

text \<open>The order of the item already holds an item of its product.\<close>

definition pair_taken :: "db \<Rightarrow> order_item \<Rightarrow> bool" where
  "pair_taken d oi =
     list_ex (\<lambda>(j, x). oi_order x = oi_order oi \<and> oi_product x = oi_product oi) (order_items d)"

subsection \<open>A small shop\<close>

definition a_category :: "string \<Rightarrow> category" where
  "a_category n =
     \<lparr>created_at = 1, updated_at = 1, created_by = Some 1, is_active = True,
      cat_name = n, cat_description = [], main_supplier = None\<rparr>"

definition a_product :: "string \<Rightarrow> int \<Rightarrow> bool \<Rightarrow> product" where
  "a_product n stock active =
     \<lparr>created_at = 2, updated_at = 2, created_by = Some 1, is_active = active,
      prod_name = n, prod_description = [], price = 1250, prod_category = 1,
      stock_quantity = stock\<rparr>"

definition a_product_in :: "nat \<Rightarrow> product" where
  "a_product_in c = (a_product ''D'' 1 True)\<lparr>prod_category := c\<rparr>"

definition a_review :: "int \<Rightarrow> review" where
  "a_review stars =
     \<lparr>created_at = 0, updated_at = 0, rev_product = 2, rev_customer = 1, rating = stars,
      rev_comment = []\<rparr>"

definition an_item :: "nat \<Rightarrow> int \<Rightarrow> order_item" where
  "an_item product_pk n =
     \<lparr>created_at = 0, updated_at = 0, oi_order = 1, oi_product = product_pk, quantity = n,
      unit_price = 1250\<rparr>"

definition an_order :: "string option \<Rightarrow> shop_order" where
  "an_order s =
     new_order 5 \<lparr>kw_created_by = None, kw_is_active = None, kw_customer = 1,
                  kw_order_date = None, kw_total_amount = 2500, kw_status = s\<rparr>"

text \<open>
  Three products in one category: A (none in stock, active), B (five in stock, active) and
  C (five in stock, inactive). B has a detail row, a supplier and the tag \<^verbatim>\<open>sale\<close>;
  the one order holds an item of A.
\<close>

definition shop :: db where
  "shop =
     \<lparr>users = [1],
      categories = [(1, a_category ''tools''), (2, a_category ''toys'')],
      suppliers = [(1, \<lparr>created_at = 1, updated_at = 1, created_by = None, is_active = True,
                        company_name = ''Acme'', contact_name = [], sup_phone = [],
                        sup_email = [], address = []\<rparr>)],
      products = [(1, a_product ''A'' 0 True), (2, a_product ''B'' 5 True),
                  (3, a_product ''C'' 5 False)],
      product_details = [(1, \<lparr>created_at = 2, updated_at = 2, det_product = 2,
                              weight_kg = Some 1500, dimensions = [], manufacturer = [],
                              warranty_months = None\<rparr>)],
      product_suppliers = [(1, \<lparr>created_at = 2, updated_at = 2, ps_product = 2,
                                ps_supplier = 1, purchase_price = 900, delivery_days = 3\<rparr>)],
      tags = [(1, \<lparr>created_at = 1, updated_at = 1, tg_name = ''sale'', tg_description = []\<rparr>)],
      product_tags = [(1, \<lparr>pt_product = 2, pt_tag = 1\<rparr>)],
      customers = [(1, \<lparr>created_at = 3, updated_at = 3, created_by = None, is_active = True,
                        first_name = ''Ada'', last_name = ''Lovelace'',
                        cust_email = ''ada@example.org'', cust_phone = [],
                        registration_date = 3\<rparr>)],
      orders = [(1, an_order None)],
      order_items = [(1, an_item 1 2)],
      reviews = []\<rparr>"

text \<open>The same shop once the customer has reviewed B twice, with three and with five stars.\<close>

definition reviewed_once :: db where
  "reviewed_once = state_after shop (save_review shop 6 (a_review 3))"

definition reviewed_twice :: db where
  "reviewed_twice = state_after reviewed_once (save_review reviewed_once 7 (a_review 5))"

section \<open>Properties\<close>

subsection \<open>Resolving the lookups of the helpers\<close>

lemma resolve_stock_quantity:
  "names_to_path Product [''stock_quantity''] = Inr ([], Product, Some ''stock_quantity'')"
  by (simp add: field_name_def)

lemma resolve_is_active:
  "names_to_path Product [''is_active''] = Inr ([], Product, Some ''is_active'')"
  by (simp add: field_name_def)




lemma resolve_tags: "names_to_path Product [''tags'', ''name''] = Inl (FieldError ''tags'')"
  by (simp add: field_name_def)

subsection \<open>Filters on a column of the product\<close>

lemma concat_replicate_filter:
  "(\<And>i. n i = (if P i then 1 else 0)) \<Longrightarrow>
     concat (map (\<lambda>i. replicate (n i) i) qs) = filter P qs"
  by (induction qs) auto

lemma values_stock_quantity:
  "lookup_values d ([], Product, Some ''stock_quantity'') i =
     (case get_product d i of None \<Rightarrow> [] | Some p \<Rightarrow> [VInt (stock_quantity p)])"
  by (simp add: lookup_values_def row_of_def get_product_def tracking_def stamps_def
           split: option.splits)

lemma values_is_active:
  "lookup_values d ([], Product, Some ''is_active'') i =
     (case get_product d i of None \<Rightarrow> [] | Some p \<Rightarrow> [VBool (is_active p)])"
  by (simp add: lookup_values_def row_of_def get_product_def tracking_def stamps_def
           split: option.splits)


lemma filter_stock_quantity:
  "filter_one d [''stock_quantity''] l w qs =
     Inr (filter (where_product d (\<lambda>p. compare l (VInt (stock_quantity p)) w)) qs)"
proof -
  have "concat (map (\<lambda>i. replicate (length (filter (\<lambda>v. compare l v w)
          (lookup_values d ([], Product, Some ''stock_quantity'') i))) i) qs) =
        filter (where_product d (\<lambda>p. compare l (VInt (stock_quantity p)) w)) qs"
    by (rule concat_replicate_filter)
       (simp add: values_stock_quantity where_product_def split: option.splits)
  then show ?thesis
    unfolding filter_one_def resolve_stock_quantity by simp
qed

lemma filter_is_active:
  "filter_one d [''is_active''] l w qs =
     Inr (filter (where_product d (\<lambda>p. compare l (VBool (is_active p)) w)) qs)"
proof -
  have "concat (map (\<lambda>i. replicate (length (filter (\<lambda>v. compare l v w)
          (lookup_values d ([], Product, Some ''is_active'') i))) i) qs) =
        filter (where_product d (\<lambda>p. compare l (VBool (is_active p)) w)) qs"
    by (rule concat_replicate_filter)
       (simp add: values_is_active where_product_def split: option.splits)
  then show ?thesis
    unfolding filter_one_def resolve_is_active by simp
qed


lemma where_product_conj:
  "(where_product d P i \<and> where_product d Q i) = where_product d (\<lambda>p. P p \<and> Q p) i"
  by (simp add: where_product_def split: option.splits)

text \<open>
  C2. \<^verbatim>\<open>available()\<close> keeps exactly the rows of the query set whose product has
  \<open>stock_quantity > 0\<close> and is active, and it does not fail. In the small shop, with
  A (stock 0, active), B (stock 5, active) and C (stock 5, inactive) under the keys 1, 2
  and 3, it selects B alone.
\<close>

theorem available_exact:
  "available d self =
     Inr (filter (where_product d (\<lambda>p. 0 < stock_quantity p \<and> is_active p)) self) \<and>
   available shop (objects shop) = Inr [2]"
proof
  show "available d self =
     Inr (filter (where_product d (\<lambda>p. 0 < stock_quantity p \<and> is_active p)) self)"
    by (simp add: available_def filter_stock_quantity filter_is_active compare_def
          where_product_conj conj_commute)
  show "available shop (objects shop) = Inr [2]"
    by code_simp
qed


subsection \<open>The missing relation\<close>

text \<open>
  C1. \<^verbatim>\<open>by_tag\<close> filters on \<^verbatim>\<open>tags__name\<close>, and \<^verbatim>\<open>Product\<close> has neither a
  field nor a reverse relation called \<^verbatim>\<open>tags\<close> (the relation to \<^verbatim>\<open>ProductTag\<close>
  is called \<^verbatim>\<open>product_tags\<close>). So for every database, every tag name and every
  query set the call raises \<^verbatim>\<open>FieldError\<close> and selects nothing, whereas the
  products carrying the tag are what it is specified to return: in the small shop that is
  B for the tag \<^verbatim>\<open>sale\<close>, which the lookup \<^verbatim>\<open>product_tags__tag__name\<close> finds.
\<close>

theorem by_tag_raises_field_error:
  "by_tag d tag_name self = Inl (FieldError ''tags'') \<and>
   by_tag d tag_name self \<noteq> by_tag_spec d tag_name self \<and>
   by_tag_spec shop ''sale'' (objects shop) = Inr [2] \<and>
   filter_all shop [([''product_tags'', ''tag'', ''name''], Exact, VText ''sale'')] (objects shop) =
     Inr [2]"
proof (intro conjI)
  show fails: "by_tag d tag_name self = Inl (FieldError ''tags'')"
    unfolding by_tag_def filter_all.simps filter_one_def resolve_tags by simp
  show "by_tag d tag_name self \<noteq> by_tag_spec d tag_name self"
    unfolding fails by (simp add: by_tag_spec_def)
  show "by_tag_spec shop ''sale'' (objects shop) = Inr [2]"
    by code_simp
  show "filter_all shop [([''product_tags'', ''tag'', ''name''], Exact, VText ''sale'')]
          (objects shop) = Inr [2]"
    by code_simp
qed

subsection \<open>Ratings\<close>











text \<open>
  The primary keys of the reviews are different in the empty table and stay different when
  a review is saved or a product deleted: a new row gets a key above all the keys there.
\<close>

lemma fold_max_upper: "a \<le> fold max xs a \<and> (\<forall>x \<in> set xs. x \<le> fold max xs (a::nat))"
proof (induction xs arbitrary: a)
  case Nil
  show ?case by simp
next
  case (Cons y ys)
  from Cons [of "max y a"] show ?case by auto
qed

lemma next_pk_fresh: "next_pk table \<notin> set (map fst table)"
proof
  assume "next_pk table \<in> set (map fst table)"
  then have "next_pk table \<le> fold max (map fst table) 0"
    using fold_max_upper [of 0 "map fst table"] by blast
  then show False
    by (simp add: next_pk_def)
qed

lemma insert_row_keys_distinct:
  "distinct (map fst table) \<Longrightarrow> distinct (map fst (insert_row table r))"
  using next_pk_fresh [of table] by (simp add: insert_row_def)

lemma save_review_keys_distinct:
  "distinct (map fst (reviews d)) \<Longrightarrow> save_review d now r = Inr d' \<Longrightarrow>
     distinct (map fst (reviews d'))"
  by (auto simp: save_review_def insert_row_keys_distinct split: if_splits)

lemma delete_product_keys_distinct:
  "distinct (map fst (reviews d)) \<Longrightarrow> delete_product d i = Inr d' \<Longrightarrow>
     distinct (map fst (reviews d'))"
  by (auto simp: delete_product_def without_def distinct_map_filter split: if_splits)



subsection \<open>Validation and storage\<close>

lemma failed_mem: "(n \<in> set (failed checks)) = ((n, False) \<in> set checks)"
  by (induction checks) (auto simp: failed_def)

lemma raise_if_ok: "(raise_if names = Inr ()) = (names = [])"
  by (simp add: raise_if_def)

lemma list_ex_insert_row:
  "list_ex (\<lambda>(j, x). P x) (insert_row table r) = (list_ex (\<lambda>(j, x). P x) table \<or> P r)"
  by (simp add: insert_row_def)

text \<open>
  C4, as stated, fails: the bounds of a rating are not enforced by the storage layer.
  Saving a review with six stars in the small shop stores it.
\<close>

theorem rating_six_is_stored:
  "save_review shop 6 (a_review 6) = Inr (shop\<lparr>reviews := [(1, stamp 6 (a_review 6))]\<rparr>) \<and>
   rating (stamp 6 (a_review 6)) = 6"
  by code_simp

text \<open>
  C4, amended. Validating a review whose rating is below 1 or above 5 (so 0 and 6) fails
  with a \<^verbatim>\<open>ValidationError\<close> on \<^verbatim>\<open>rating\<close>, and validating one with a rating
  from 1 to 5 (so 1 and 5) whose product and customer exist succeeds. The bounds are
  enforced by the validators of the field, in validation only: the storage layer has no
  constraint on the rating and stores a review of an existing product and customer
  whatever rating that fits the integer column it carries.
\<close>

theorem rating_bounds_are_validated_not_stored:
  "(rating r < 1 \<or> 5 < rating r \<longrightarrow>
      (\<exists>names. full_clean_review d r = Inl (ValidationError names) \<and> ''rating'' \<in> set names)) \<and>
   (exists_in (products d) (rev_product r) \<and> exists_in (customers d) (rev_customer r) \<and>
      1 \<le> rating r \<and> rating r \<le> 5 \<longrightarrow> full_clean_review d r = Inr ()) \<and>
   (exists_in (products d) (rev_product r) \<and> exists_in (customers d) (rev_customer r) \<and>
      - (2 ^ 31) \<le> rating r \<and> rating r < 2 ^ 31 \<longrightarrow>
      save_review d now r = Inr (d\<lparr>reviews := reviews d @ [(next_pk (reviews d), stamp now r)]\<rparr>))"
proof (intro conjI impI)
  assume out: "rating r < 1 \<or> 5 < rating r"
  then have "''rating'' \<in> set (failed
       [(''product'', exists_in (products d) (rev_product r)),
        (''customer'', exists_in (customers d) (rev_customer r)),
        (''rating'', list_all (\<lambda>v. passes v (rating r)) rating_validators)])"
    by (auto simp: failed_mem rating_validators_def)
  then show "\<exists>names. full_clean_review d r = Inl (ValidationError names) \<and> ''rating'' \<in> set names"
    unfolding full_clean_review_def raise_if_def by (metis empty_iff list.set(1))
next
  assume "exists_in (products d) (rev_product r) \<and> exists_in (customers d) (rev_customer r) \<and>
      1 \<le> rating r \<and> rating r \<le> 5"
  then show "full_clean_review d r = Inr ()"
    by (simp add: full_clean_review_def raise_if_def failed_def rating_validators_def)
next
  assume "exists_in (products d) (rev_product r) \<and> exists_in (customers d) (rev_customer r) \<and>
      - (2 ^ 31) \<le> rating r \<and> rating r < 2 ^ 31"
  then show "save_review d now r = Inr (d\<lparr>reviews := reviews d @ [(next_pk (reviews d), stamp now r)]\<rparr>)"
    by (simp add: save_review_def insert_row_def)
qed

text \<open>
  In the small shop: six stars and no star fail validation, one star and five stars pass,
  and the review without a star is stored all the same.
\<close>

theorem rating_bounds_are_validated_not_stored_witness:
  "full_clean_review shop (a_review 6) = Inl (ValidationError [''rating'']) \<and>
   full_clean_review shop (a_review 0) = Inl (ValidationError [''rating'']) \<and>
   full_clean_review shop (a_review 1) = Inr () \<and>
   full_clean_review shop (a_review 5) = Inr () \<and>
   save_review shop 6 (a_review 0) = Inr (shop\<lparr>reviews := [(1, stamp 6 (a_review 0))]\<rparr>)"
proof -
  have there: "exists_in (products shop) (rev_product (a_review x)) \<and>
               exists_in (customers shop) (rev_customer (a_review x))" for x
    by (simp add: a_review_def shop_def exists_in_def)
  have stars: "rating (a_review x) = x" for x
    by (simp add: a_review_def)
  have six: "full_clean_review shop (a_review 6) = Inl (ValidationError [''rating''])"
    and none: "full_clean_review shop (a_review 0) = Inl (ValidationError [''rating''])"
    by code_simp+
  have one: "full_clean_review shop (a_review 1) = Inr ()"
    using rating_bounds_are_validated_not_stored [of "a_review 1" shop 6] there stars by simp
  have five: "full_clean_review shop (a_review 5) = Inr ()"
    using rating_bounds_are_validated_not_stored [of "a_review 5" shop 6] there stars by simp
  have row: "shop\<lparr>reviews := reviews shop @ [(next_pk (reviews shop), stamp 6 (a_review 0))]\<rparr> =
             shop\<lparr>reviews := [(1, stamp 6 (a_review 0))]\<rparr>"
    by code_simp
  have "save_review shop 6 (a_review 0) =
          Inr (shop\<lparr>reviews := reviews shop @ [(next_pk (reviews shop), stamp 6 (a_review 0))]\<rparr>)"
    using rating_bounds_are_validated_not_stored [of "a_review 0" shop 6] there stars by simp
  then show ?thesis
    unfolding row using six none one five by simp
qed

subsection \<open>Order items\<close>

text \<open>
  C7, as stated, fails: creating an order item with the quantity 0 does not fail when it
  is saved without validation, since the column of a \<^verbatim>\<open>PositiveIntegerField\<close>
  refuses negative numbers only.
\<close>

theorem quantity_zero_is_stored:
  "save_order_item shop 9 (an_item 2 0) =
     Inr (shop\<lparr>order_items := order_items shop @ [(2, stamp 9 (an_item 2 0))]\<rparr>) \<and>
   quantity (stamp 9 (an_item 2 0)) = 0"
  by code_simp

lemma save_order_item_Inr:
  "(save_order_item d now oi = Inr d') =
     (positive_integer (quantity oi) \<and> \<not> pair_taken d oi \<and>
      exists_in (orders d) (oi_order oi) \<and> exists_in (products d) (oi_product oi) \<and>
      d' = d\<lparr>order_items := insert_row (order_items d) (stamp now oi)\<rparr>)"
  by (auto simp: save_order_item_def pair_taken_def)

text \<open>
  C7, amended. Validating an order item with the quantity 0 fails with a
  \<^verbatim>\<open>ValidationError\<close> on \<^verbatim>\<open>quantity\<close>; one with the quantity 1, a price from
  0 that fits the column, an existing order and product and a pair not yet taken passes
  validation and is stored; inserting a second item for the order and product of a stored
  item fails with the \<^verbatim>\<open>IntegrityError\<close> of \<^verbatim>\<open>uniq_order_product\<close> and changes
  nothing; the storage layer by itself refuses only a negative quantity.
\<close>

theorem order_item_quantity_validated_pair_unique:
  "(quantity oi = 0 \<longrightarrow>
      (\<exists>names. full_clean_order_item d oi = Inl (ValidationError names) \<and>
               ''quantity'' \<in> set names)) \<and>
   (quantity oi = 1 \<and> 0 \<le> unit_price oi \<and> unit_price oi < 10 ^ 10 \<and>
    exists_in (orders d) (oi_order oi) \<and> exists_in (products d) (oi_product oi) \<and>
    \<not> pair_taken d oi \<longrightarrow>
      full_clean_order_item d oi = Inr () \<and>
      save_order_item d now oi =
        Inr (d\<lparr>order_items := order_items d @ [(next_pk (order_items d), stamp now oi)]\<rparr>)) \<and>
   (save_order_item d now oi = Inr d' \<and> oi_order oi' = oi_order oi \<and>
    oi_product oi' = oi_product oi \<and> 0 \<le> quantity oi' \<longrightarrow>
      save_order_item d' now' oi' = Inl (IntegrityError ''uniq_order_product'') \<and>
      state_after d' (save_order_item d' now' oi') = d') \<and>
   (quantity oi < 0 \<longrightarrow> save_order_item d now oi = Inl (IntegrityError ''quantity''))"
proof (intro conjI impI)
  assume "quantity oi = 0"
  then have "''quantity'' \<in> set (failed
        [(''order'', exists_in (orders d) (oi_order oi)),
         (''product'', exists_in (products d) (oi_product oi)),
         (''quantity'', positive_integer (quantity oi) \<and>
                        list_all (\<lambda>v. passes v (quantity oi)) quantity_validators),
         (''unit_price'', ten_digits (unit_price oi) \<and>
                          list_all (\<lambda>v. passes v (unit_price oi)) unit_price_validators)])"
    by (simp add: failed_mem quantity_validators_def)
  then show "\<exists>names. full_clean_order_item d oi = Inl (ValidationError names) \<and>
               ''quantity'' \<in> set names"
    by (auto simp: full_clean_order_item_def raise_if_def Let_def)
next
  assume ok: "quantity oi = 1 \<and> 0 \<le> unit_price oi \<and> unit_price oi < 10 ^ 10 \<and>
    exists_in (orders d) (oi_order oi) \<and> exists_in (products d) (oi_product oi) \<and>
    \<not> pair_taken d oi"
  then show "full_clean_order_item d oi = Inr ()"
    by (simp add: full_clean_order_item_def raise_if_def failed_def Let_def pair_taken_def
          positive_integer_def ten_digits_def quantity_validators_def unit_price_validators_def)
  from ok show "save_order_item d now oi =
        Inr (d\<lparr>order_items := order_items d @ [(next_pk (order_items d), stamp now oi)]\<rparr>)"
    by (simp add: save_order_item_Inr positive_integer_def insert_row_def)
next
  assume again: "save_order_item d now oi = Inr d' \<and> oi_order oi' = oi_order oi \<and>
    oi_product oi' = oi_product oi \<and> 0 \<le> quantity oi'"
  then have "pair_taken d' oi'"
    by (simp add: save_order_item_Inr pair_taken_def list_ex_insert_row stamp_def)
  with again show "save_order_item d' now' oi' = Inl (IntegrityError ''uniq_order_product'')"
    by (simp add: save_order_item_def pair_taken_def positive_integer_def)
  then show "state_after d' (save_order_item d' now' oi') = d'"
    by (simp add: state_after_def)
next
  assume "quantity oi < 0"
  then show "save_order_item d now oi = Inl (IntegrityError ''quantity'')"
    by (simp add: save_order_item_def positive_integer_def)
qed

text \<open>
  In the small shop, for items of product B in the one order: the quantity 0 fails
  validation, the quantity 1 passes and is stored, a second item of B is then refused, and
  the quantity -1 is refused by the column.
\<close>

theorem order_item_quantity_validated_pair_unique_witness:
  "full_clean_order_item shop (an_item 2 0) = Inl (ValidationError [''quantity'']) \<and>
   full_clean_order_item shop (an_item 2 1) = Inr () \<and>
   save_order_item shop 9 (an_item 2 1) =
     Inr (shop\<lparr>order_items := order_items shop @ [(2, stamp 9 (an_item 2 1))]\<rparr>) \<and>
   save_order_item (shop\<lparr>order_items := order_items shop @ [(2, stamp 9 (an_item 2 1))]\<rparr>) 10
     (an_item 2 3) = Inl (IntegrityError ''uniq_order_product'') \<and>
   save_order_item shop 9 (an_item 2 (- 1)) = Inl (IntegrityError ''quantity'')"
proof -
  let ?d' = "shop\<lparr>order_items := order_items shop @ [(2, stamp 9 (an_item 2 1))]\<rparr>"
  have zero: "full_clean_order_item shop (an_item 2 0) = Inl (ValidationError [''quantity''])"
    by code_simp
  have ok: "quantity (an_item 2 1) = 1 \<and> 0 \<le> unit_price (an_item 2 1) \<and>
      unit_price (an_item 2 1) < 10 ^ 10 \<and>
      exists_in (orders shop) (oi_order (an_item 2 1)) \<and>
      exists_in (products shop) (oi_product (an_item 2 1)) \<and> \<not> pair_taken shop (an_item 2 1)"
    by (simp add: an_item_def shop_def exists_in_def pair_taken_def)
  have row: "shop\<lparr>order_items := order_items shop @
               [(next_pk (order_items shop), stamp 9 (an_item 2 1))]\<rparr> = ?d'"
    by code_simp
  from order_item_quantity_validated_pair_unique [of "an_item 2 1" shop 9] ok
  have one: "full_clean_order_item shop (an_item 2 1) = Inr ()"
    and saved: "save_order_item shop 9 (an_item 2 1) = Inr ?d'"
    unfolding row by blast+
  have "oi_order (an_item 2 3) = oi_order (an_item 2 1) \<and>
        oi_product (an_item 2 3) = oi_product (an_item 2 1) \<and> 0 \<le> quantity (an_item 2 3)"
    by (simp add: an_item_def)
  with order_item_quantity_validated_pair_unique [of "an_item 2 1" shop 9 ?d' "an_item 2 3" 10] saved
  have again: "save_order_item ?d' 10 (an_item 2 3) = Inl (IntegrityError ''uniq_order_product'')"
    by blast
  have "quantity (an_item 2 (- 1)) < 0"
    by (simp add: an_item_def)
  with order_item_quantity_validated_pair_unique [of "an_item 2 (- 1)" shop 9]
  have "save_order_item shop 9 (an_item 2 (- 1)) = Inl (IntegrityError ''quantity'')"
    by blast
  with zero one saved again show ?thesis
    by simp
qed

subsection \<open>Products of one name\<close>

lemma save_product_Inr:
  "(save_product d now p = Inr d') =
     (positive_integer (stock_quantity p) \<and>
      \<not> list_ex (\<lambda>(j, x). prod_name x = prod_name p \<and> prod_category x = prod_category p) (products d) \<and>
      creator_ok d (created_by p) \<and> exists_in (categories d) (prod_category p) \<and>
      d' = d\<lparr>products := insert_row (products d) (stamp now p)\<rparr>)"
  by (auto simp: save_product_def)

text \<open>
  C6. Once a product \<open>p\<close> has been inserted, inserting a product \<open>q\<close> with the same
  name and category fails and leaves the database as it was; the error is the
  \<^verbatim>\<open>IntegrityError\<close> of the constraint \<^verbatim>\<open>uniq_product_in_category\<close> whenever the
  stock of \<open>q\<close> is not negative (a negative stock is refused first, by the check of its
  column). A product in another category, whatever its name, that could be inserted before
  \<open>p\<close> can still be inserted after it, and both rows are there.
\<close>

theorem product_name_unique_in_category:
  assumes "save_product d now p = Inr d'"
  shows "(same_place p q \<and> 0 \<le> stock_quantity q \<longrightarrow>
            save_product d' now' q = Inl (IntegrityError ''uniq_product_in_category'')) \<and>
         (same_place p q \<longrightarrow>
            (\<exists>e. save_product d' now' q = Inl e) \<and> state_after d' (save_product d' now' q) = d') \<and>
         (prod_category q \<noteq> prod_category p \<and> (\<exists>d2. save_product d now' q = Inr d2) \<longrightarrow>
            (\<exists>d''. save_product d' now' q = Inr d'' \<and>
               products d'' = products d @ [(next_pk (products d), stamp now p),
                                            (next_pk (products d'), stamp now' q)]))"
proof -
  from assms have d': "d' = d\<lparr>products := insert_row (products d) (stamp now p)\<rparr>"
    by (simp add: save_product_Inr)
  have taken: "same_place p q \<Longrightarrow>
      list_ex (\<lambda>(j, x). prod_name x = prod_name q \<and> prod_category x = prod_category q) (products d')"
    by (simp add: d' list_ex_insert_row same_place_def stamp_def)
  have first: "same_place p q \<and> 0 \<le> stock_quantity q \<longrightarrow>
            save_product d' now' q = Inl (IntegrityError ''uniq_product_in_category'')"
    using taken by (simp add: save_product_def positive_integer_def)
  have second: "same_place p q \<longrightarrow>
            (\<exists>e. save_product d' now' q = Inl e) \<and> state_after d' (save_product d' now' q) = d'"
    using taken by (simp add: save_product_def state_after_def)
  have third: "prod_category q \<noteq> prod_category p \<and> (\<exists>d2. save_product d now' q = Inr d2) \<longrightarrow>
            (\<exists>d''. save_product d' now' q = Inr d'' \<and>
               products d'' = products d @ [(next_pk (products d), stamp now p),
                                            (next_pk (products d'), stamp now' q)])"
    by (auto simp: save_product_Inr d' list_ex_insert_row stamp_def creator_ok_def insert_row_def
             split: option.splits)
  from first second third show ?thesis by blast
qed

text \<open>
  In the small shop: a product D is inserted into the first category; a second D in that
  category is refused; a D in the second category is accepted.
\<close>

theorem product_name_unique_in_category_witness:
  "save_product shop 8 (a_product_in 1) =
     Inr (shop\<lparr>products := products shop @ [(4, stamp 8 (a_product_in 1))]\<rparr>) \<and>
   save_product (shop\<lparr>products := products shop @ [(4, stamp 8 (a_product_in 1))]\<rparr>) 9
     (a_product_in 1) = Inl (IntegrityError ''uniq_product_in_category'') \<and>
   prod_name (a_product_in 2) = prod_name (a_product_in 1) \<and>
   (\<exists>d''. save_product (shop\<lparr>products := products shop @ [(4, stamp 8 (a_product_in 1))]\<rparr>) 9
            (a_product_in 2) = Inr d'' \<and>
          map (\<lambda>(j, x). (prod_name x, prod_category x)) (products d'') =
            [(''A'', 1), (''B'', 1), (''C'', 1), (''D'', 1), (''D'', 2)])"
proof -
  let ?d' = "shop\<lparr>products := products shop @ [(4, stamp 8 (a_product_in 1))]\<rparr>"
  have first: "save_product shop 8 (a_product_in 1) = Inr ?d'"
    by code_simp
  have same: "same_place (a_product_in 1) (a_product_in 1) \<and> 0 \<le> stock_quantity (a_product_in 1)"
    by (simp add: same_place_def a_product_in_def a_product_def)
  have other: "prod_category (a_product_in 2) \<noteq> prod_category (a_product_in 1)"
    by (simp add: a_product_in_def)
  have alone: "\<exists>d2. save_product shop 9 (a_product_in 2) = Inr d2"
    by (simp add: save_product_Inr) code_simp
  have names: "map (\<lambda>(j, x). (prod_name x, prod_category x))
                 (products shop @ [(next_pk (products shop), stamp 8 (a_product_in 1)),
                                   (next_pk (products ?d'), stamp 9 (a_product_in 2))]) =
               [(''A'', 1), (''B'', 1), (''C'', 1), (''D'', 1), (''D'', 2)]"
    by code_simp
  have name: "prod_name (a_product_in 2) = prod_name (a_product_in 1)"
    by (simp add: a_product_in_def)
  from product_name_unique_in_category [OF first, of "a_product_in 1" 9] same
  have second: "save_product ?d' 9 (a_product_in 1) = Inl (IntegrityError ''uniq_product_in_category'')"
    by blast
  from product_name_unique_in_category [OF first, of "a_product_in 2" 9] other alone
  obtain d'' where "save_product ?d' 9 (a_product_in 2) = Inr d''"
    and "products d'' = products shop @ [(next_pk (products shop), stamp 8 (a_product_in 1)),
                                   (next_pk (products ?d'), stamp 9 (a_product_in 2))]"
    by blast
  with names first second name show ?thesis
    by auto
qed

subsection \<open>The status of an order\<close>

lemma Status_values:
  "set (map fst Status_choices) = {''pending'', ''completed'', ''shipped'', ''cancelled''}"
  by (auto simp: Status_choices_def)

text \<open>
  C9, as stated, fails: \<^verbatim>\<open>status\<close> is a \<^verbatim>\<open>CharField\<close>, and an order saved
  without validation keeps a status that is none of the four choices.
\<close>

theorem refunded_order_is_stored:
  "save_order shop 9 (an_order (Some ''refunded'')) =
     Inr (shop\<lparr>orders := orders shop @ [(2, stamp 9 (an_order (Some ''refunded'')))]\<rparr>) \<and>
   status (stamp 9 (an_order (Some ''refunded''))) = ''refunded'' \<and>
   ''refunded'' \<notin> set (map fst Status_choices)"
  by code_simp

text \<open>
  C9, amended. Every order that passes validation has one of the four statuses
  \<^verbatim>\<open>pending\<close>, \<^verbatim>\<open>completed\<close>, \<^verbatim>\<open>shipped\<close>, \<^verbatim>\<open>cancelled\<close>, and an
  order with one of them, an existing customer and creator and a total from 0 that fits
  passes; an order built without a status has the status \<^verbatim>\<open>pending\<close>. The status is
  a string of at most 20 characters checked against the choices by validation only: the
  storage layer stores an order of an existing customer and creator with any such string.
\<close>

theorem order_status_validated_default_pending:
  "(full_clean_order d ord = Inr () \<longrightarrow>
      status ord \<in> {''pending'', ''completed'', ''shipped'', ''cancelled''}) \<and>
   (status ord \<in> {''pending'', ''completed'', ''shipped'', ''cancelled''} \<and>
    creator_ok d (created_by ord) \<and> exists_in (customers d) (ord_customer ord) \<and>
    0 \<le> total_amount ord \<and> total_amount ord < 10 ^ 10 \<longrightarrow> full_clean_order d ord = Inr ()) \<and>
   (kw_status kw = None \<longrightarrow> status (new_order now kw) = ''pending'') \<and>
   (creator_ok d (created_by ord) \<and> exists_in (customers d) (ord_customer ord) \<and>
    length (status ord) \<le> 20 \<and> ten_digits (total_amount ord) \<longrightarrow>
      save_order d now ord =
        Inr (d\<lparr>orders := orders d @ [(next_pk (orders d), stamp now ord)]\<rparr>))"
proof (intro conjI impI)
  assume "full_clean_order d ord = Inr ()"
  then have "''status'' \<notin> set (failed
       [(''created_by'', creator_ok d (created_by ord)),
        (''customer'', exists_in (customers d) (ord_customer ord)),
        (''total_amount'', ten_digits (total_amount ord) \<and>
                           list_all (\<lambda>v. passes v (total_amount ord)) total_amount_validators),
        (''status'', status ord \<noteq> [] \<and> length (status ord) \<le> 20 \<and>
                     status ord \<in> set (map fst Status_choices))])"
    unfolding full_clean_order_def raise_if_ok by simp
  then have "status ord \<in> set (map fst Status_choices)"
    unfolding failed_mem by auto
  then show "status ord \<in> {''pending'', ''completed'', ''shipped'', ''cancelled''}"
    unfolding Status_values .
next
  assume "status ord \<in> {''pending'', ''completed'', ''shipped'', ''cancelled''} \<and>
    creator_ok d (created_by ord) \<and> exists_in (customers d) (ord_customer ord) \<and>
    0 \<le> total_amount ord \<and> total_amount ord < 10 ^ 10"
  then show "full_clean_order d ord = Inr ()"
    unfolding Status_values [symmetric]
    by (auto simp: full_clean_order_def raise_if_def failed_def ten_digits_def
          total_amount_validators_def Status_choices_def)
next
  assume "kw_status kw = None"
  then show "status (new_order now kw) = ''pending''"
    by (simp add: new_order_def)
next
  assume "creator_ok d (created_by ord) \<and> exists_in (customers d) (ord_customer ord) \<and>
    length (status ord) \<le> 20 \<and> ten_digits (total_amount ord)"
  then show "save_order d now ord =
        Inr (d\<lparr>orders := orders d @ [(next_pk (orders d), stamp now ord)]\<rparr>)"
    by (simp add: save_order_def insert_row_def)
qed

text \<open>
  In the small shop: the order built without a status is pending, passes validation and is
  stored; \<^verbatim>\<open>shipped\<close> passes validation, \<^verbatim>\<open>refunded\<close> does not.
\<close>

theorem order_status_validated_default_pending_witness:
  "full_clean_order shop (an_order None) = Inr () \<and>
   status (an_order None) = ''pending'' \<and>
   full_clean_order shop (an_order (Some ''shipped'')) = Inr () \<and>
   full_clean_order shop (an_order (Some ''refunded'')) = Inl (ValidationError [''status'']) \<and>
   save_order shop 9 (an_order None) =
     Inr (shop\<lparr>orders := orders shop @ [(2, stamp 9 (an_order None))]\<rparr>)"
proof -
  have default: "status (an_order None) = ''pending''"
    unfolding an_order_def
    using order_status_validated_default_pending
      [where now = 5 and kw = "\<lparr>kw_created_by = None, kw_is_active = None, kw_customer = 1,
          kw_order_date = None, kw_total_amount = 2500, kw_status = None\<rparr>"]
    by simp
  have fine: "creator_ok shop (created_by (an_order s)) \<and>
      exists_in (customers shop) (ord_customer (an_order s)) \<and>
      0 \<le> total_amount (an_order s) \<and> total_amount (an_order s) < 10 ^ 10" for s
    by (simp add: an_order_def new_order_def creator_ok_def exists_in_def shop_def)
  have shipped: "status (an_order (Some ''shipped'')) = ''shipped''"
    by (simp add: an_order_def new_order_def)
  have valid: "full_clean_order shop (an_order None) = Inr ()"
    using order_status_validated_default_pending [of shop "an_order None"] fine default by simp
  have valid': "full_clean_order shop (an_order (Some ''shipped'')) = Inr ()"
    using order_status_validated_default_pending [of shop "an_order (Some ''shipped'')"]
      fine shipped by simp
  have refused: "full_clean_order shop (an_order (Some ''refunded'')) =
      Inl (ValidationError [''status''])"
    by code_simp
  have row: "shop\<lparr>orders := orders shop @ [(next_pk (orders shop), stamp 9 (an_order None))]\<rparr> =
             shop\<lparr>orders := orders shop @ [(2, stamp 9 (an_order None))]\<rparr>"
    by code_simp
  have "save_order shop 9 (an_order None) =
          Inr (shop\<lparr>orders := orders shop @ [(next_pk (orders shop), stamp 9 (an_order None))]\<rparr>)"
    using order_status_validated_default_pending [where d = shop and ord = "an_order None" and now = 9]
      fine default by (simp add: ten_digits_def)
  then show ?thesis
    unfolding row using default valid valid' refused by simp
qed

subsection \<open>Two reviews by one customer\<close>

text \<open>
  C10. \<^verbatim>\<open>Review\<close> has no uniqueness constraint over product and customer. In the
  small shop the one customer reviews product B twice, with three and with five stars:
  both saves succeed, the two rows are different reviews of the same product by the same
  customer, and \<^verbatim>\<open>with_rating()\<close> counts both and averages both ratings.
\<close>

theorem repeated_review_counts_twice:
  "save_review shop 6 (a_review 3) = Inr reviewed_once \<and>
   save_review reviewed_once 7 (a_review 5) = Inr reviewed_twice \<and>
   reviews reviewed_twice = [(1, stamp 6 (a_review 3)), (2, stamp 7 (a_review 5))] \<and>
   rev_product (a_review 3) = 2 \<and> rev_product (a_review 5) = 2 \<and>
   rev_customer (a_review 3) = 1 \<and> rev_customer (a_review 5) = 1 \<and>
   with_rating reviewed_twice [2] = Inr [\<lparr>pk = 2, review_count = 2, avg_rating = Some 4\<rparr>] \<and>
   mean [3, 5] = Some 4"
  by code_simp

subsection \<open>Deleting a product\<close>

lemma referred_list_ex: "list_ex (\<lambda>(j, x). oi_product x = i) (order_items d) = referred d i"
  by (auto simp: referred_def list_ex_iff)

lemma set_without: "set (without fk i table) = {x \<in> set table. fk (snd x) \<noteq> i}"
  by (auto simp: without_def)

text \<open>
  C5. Deleting the product \<open>i\<close>: when an order item refers to it the deletion is refused
  with \<^verbatim>\<open>ProtectedError\<close> and the database stays as it was; otherwise it succeeds,
  and the detail rows, the supplier links, the tag links and the reviews that refer to
  \<open>i\<close> are gone together with the product, while every other row of those tables and
  every other table is as before.
\<close>

theorem delete_product_cascades_unless_protected:
  "(referred d i \<longrightarrow>
      delete_product d i = Inl (ProtectedError ''order_items'') \<and>
      state_after d (delete_product d i) = d) \<and>
   (\<not> referred d i \<longrightarrow>
      (\<exists>d'. delete_product d i = Inr d' \<and>
         set (product_details d') = {x \<in> set (product_details d). det_product (snd x) \<noteq> i} \<and>
         set (product_suppliers d') = {x \<in> set (product_suppliers d). ps_product (snd x) \<noteq> i} \<and>
         set (product_tags d') = {x \<in> set (product_tags d). pt_product (snd x) \<noteq> i} \<and>
         set (reviews d') = {x \<in> set (reviews d). rev_product (snd x) \<noteq> i} \<and>
         set (products d') = {x \<in> set (products d). fst x \<noteq> i} \<and>
         users d' = users d \<and> categories d' = categories d \<and> suppliers d' = suppliers d \<and>
         tags d' = tags d \<and> customers d' = customers d \<and> orders d' = orders d \<and>
         order_items d' = order_items d))"
proof (intro conjI impI)
  assume "referred d i"
  then show "delete_product d i = Inl (ProtectedError ''order_items'')"
    by (simp add: delete_product_def referred_list_ex)
  then show "state_after d (delete_product d i) = d"
    by (simp add: state_after_def)
next
  assume "\<not> referred d i"
  then show "\<exists>d'. delete_product d i = Inr d' \<and>
         set (product_details d') = {x \<in> set (product_details d). det_product (snd x) \<noteq> i} \<and>
         set (product_suppliers d') = {x \<in> set (product_suppliers d). ps_product (snd x) \<noteq> i} \<and>
         set (product_tags d') = {x \<in> set (product_tags d). pt_product (snd x) \<noteq> i} \<and>
         set (reviews d') = {x \<in> set (reviews d). rev_product (snd x) \<noteq> i} \<and>
         set (products d') = {x \<in> set (products d). fst x \<noteq> i} \<and>
         users d' = users d \<and> categories d' = categories d \<and> suppliers d' = suppliers d \<and>
         tags d' = tags d \<and> customers d' = customers d \<and> orders d' = orders d \<and>
         order_items d' = order_items d"
    by (auto simp: delete_product_def referred_list_ex set_without)
qed

text \<open>
  In the small shop product A is held by an order item and cannot be deleted. B, with its
  detail row, its supplier, its tag and its two reviews, is held by none: deleting it
  empties those four tables and leaves A and C.
\<close>

theorem delete_product_cascades_unless_protected_witness:
  "referred shop 1 \<and> delete_product shop 1 = Inl (ProtectedError ''order_items'') \<and>
   \<not> referred reviewed_twice 2 \<and>
   delete_product reviewed_twice 2 =
     Inr (reviewed_twice\<lparr>product_details := [], product_suppliers := [], product_tags := [],
            reviews := [], products := [(1, a_product ''A'' 0 True), (3, a_product ''C'' 5 False)]\<rparr>)"
proof -
  have kept: "referred shop 1"
    and free: "\<not> referred reviewed_twice 2"
    unfolding referred_def by code_simp+
  have gone: "delete_product reviewed_twice 2 =
     Inr (reviewed_twice\<lparr>product_details := [], product_suppliers := [], product_tags := [],
            reviews := [], products := [(1, a_product ''A'' 0 True), (3, a_product ''C'' 5 False)]\<rparr>)"
    by code_simp
  show ?thesis
    using kept free gone
      delete_product_cascades_unless_protected [of shop 1]
      delete_product_cascades_unless_protected [of reviewed_twice 2]
    by simp
qed

end
